theory Spec2Isabelle
  imports Complex_Main "HOL-Library.Sublist"
begin

section \<open>JavaScript values and library functions used by the pages\<close>

text \<open>
  The recommendation logic of DesignSenseAI lives in three React pages:
  \<^verbatim>\<open>ModelAdvisor\<close> (budget shortlist, ranking, feature averages),
  \<^verbatim>\<open>SupplierInsights\<close> (\<^verbatim>\<open>createRecommendationCards\<close>) and
  \<^verbatim>\<open>BuyerInsights\<close> (\<^verbatim>\<open>generateBuyerRecommendations\<close>).

  Conventions of the embedding:
  \<^item> a JavaScript \<^verbatim>\<open>number\<close> is a \<^typ>\<open>real\<close>: the snapshot is parsed JSON, so it holds
    no NaN and no infinity; rounding of double arithmetic is not modelled;
  \<^item> a field of type \<^verbatim>\<open>T | null\<close>, an optional field, or a field the code reads under
    \<^verbatim>\<open>??\<close> or \<^verbatim>\<open>?.\<close> is a \<^typ>\<open>'a option\<close>;
  \<^item> an object used as a dictionary (\<^verbatim>\<open>Record<string, T>\<close>) is the association list of
    its own entries, in the order \<^verbatim>\<open>Object.entries\<close> enumerates them; a read by key
    also sees the properties inherited from \<^verbatim>\<open>Object.prototype\<close>;
  \<^item> \<^verbatim>\<open>Array.prototype.sort\<close> is a stable insertion sort driven by the sign of the
    comparator. ECMAScript fixes the result only for consistent comparators. The advisor's
    comparator is not one (its \<^verbatim>\<open>1e-6\<close> tolerance is not transitive), so what is proved
    about a list sorted with it either holds for every permutation of the input or is about
    a list of two elements, where the sign of one comparison decides.
\<close>

definition nullish :: "'a option \<Rightarrow> 'a \<Rightarrow> 'a" where
  \<comment> \<open>\<^verbatim>\<open>v ?? d\<close>\<close>
  "nullish v d = (case v of None \<Rightarrow> d | Some x \<Rightarrow> x)"

definition truthy :: "real option \<Rightarrow> bool" where
  \<comment> \<open>a \<^verbatim>\<open>number | null\<close> in a boolean position: \<^verbatim>\<open>null\<close> and \<^verbatim>\<open>0\<close> are falsy\<close>
  "truthy v = (case v of None \<Rightarrow> False | Some x \<Rightarrow> x \<noteq> 0)"

definition js_slice :: "int \<Rightarrow> int \<Rightarrow> 'a list \<Rightarrow> 'a list" where
  \<comment> \<open>\<^verbatim>\<open>xs.slice(start, end)\<close>: negative indices count from the end, both are clamped\<close>
  "js_slice start end xs =
     (let n = int (length xs);
          k = (if start < 0 then max (n + start) 0 else min start n);
          f = (if end < 0 then max (n + end) 0 else min end n)
      in take (nat (f - k)) (drop (nat k) xs))"

fun sort_insert :: "('a \<Rightarrow> 'a \<Rightarrow> real) \<Rightarrow> 'a \<Rightarrow> 'a list \<Rightarrow> 'a list" where
  "sort_insert cmp x [] = [x]"
| "sort_insert cmp x (y # ys) =
     (if cmp x y \<le> 0 then x # y # ys else y # sort_insert cmp x ys)"

definition js_sort :: "('a \<Rightarrow> 'a \<Rightarrow> real) \<Rightarrow> 'a list \<Rightarrow> 'a list" where
  \<comment> \<open>\<^verbatim>\<open>[...xs].sort(cmp)\<close>: \<^verbatim>\<open>cmp a b < 0\<close> puts \<^verbatim>\<open>a\<close> first, \<^verbatim>\<open>> 0\<close> puts \<^verbatim>\<open>b\<close> first,
      \<^verbatim>\<open>0\<close> keeps the input order. This is the order of every engine when \<^verbatim>\<open>cmp\<close> is a
      consistent comparator or the list has at most two elements; otherwise the engine may
      order the same elements differently\<close>
  "js_sort cmp xs = foldr (sort_insert cmp) xs []"

definition first_elem :: "'a list \<Rightarrow> 'a option" where
  \<comment> \<open>\<^verbatim>\<open>xs[0]\<close>, which is \<^verbatim>\<open>undefined\<close> on an empty array\<close>
  "first_elem xs = (case xs of [] \<Rightarrow> None | x # _ \<Rightarrow> Some x)"

definition MAX_SAFE_INTEGER :: real where
  "MAX_SAFE_INTEGER = 9007199254740991"

section \<open>Model advisor: shortlist, ranking, feature averages\<close>

record ModelAdvisorModel =
  brand :: string
  model :: string
  avg_rating :: "real option"
  avg_price_usd :: "real option"
  avg_price_inr :: "real option"
  avg_battery_rating :: "real option"
  avg_camera_rating :: "real option"
  avg_display_rating :: "real option"
  avg_performance_rating :: "real option"
  review_count :: real

record ModelAdvisorBrand =
  mab_brand :: string
  mab_models :: "ModelAdvisorModel list"

record ModelAdvisorResponse =
  brands :: "ModelAdvisorBrand list"
  models :: "ModelAdvisorModel list"

record Shortlist =
  recommendedModels :: "ModelAdvisorModel list"
  candidatePool :: "ModelAdvisorModel list"


definition scopedPool :: "ModelAdvisorResponse \<Rightarrow> string \<Rightarrow> ModelAdvisorModel list" where
  "scopedPool d budgetBrand =
     (if budgetBrand \<noteq> ''all'' then filter (\<lambda>m. brand m = budgetBrand) (models d)
      else models d)"

definition withPriceAndRating :: "ModelAdvisorModel list \<Rightarrow> ModelAdvisorModel list" where
  "withPriceAndRating pool =
     filter (\<lambda>m. avg_price_usd m \<noteq> None \<and> avg_rating m \<noteq> None) pool"

definition tolerance :: "real option \<Rightarrow> real option" where
  \<comment> \<open>\<^verbatim>\<open>budget ? Math.max(budget * 0.25, 100) : null\<close>\<close>
  "tolerance budget =
     (case budget of
        None \<Rightarrow> None
      | Some b \<Rightarrow> if b \<noteq> 0 then Some (max (b * 0.25) 100) else None)"

definition withinTolerance :: "real \<Rightarrow> real \<Rightarrow> ModelAdvisorModel list \<Rightarrow> ModelAdvisorModel list" where
  "withinTolerance b tol pool =
     filter (\<lambda>m. \<bar>nullish (avg_price_usd m) 0 - b\<bar> \<le> tol) pool"

definition workingSet :: "real option \<Rightarrow> ModelAdvisorModel list \<Rightarrow> ModelAdvisorModel list" where
  \<comment> \<open>\<^verbatim>\<open>if (budget && tolerance) { ... if (withinTolerance.length >= 3) workingSet = withinTolerance }\<close>\<close>
  "workingSet budget eligible =
     (case (budget, tolerance budget) of
        (Some b, Some tol) \<Rightarrow>
          if b \<noteq> 0 \<and> tol \<noteq> 0
          then (let inTol = withinTolerance b tol eligible
                in if length inTol \<ge> 3 then inTol else eligible)
          else eligible
      | _ \<Rightarrow> eligible)"

definition budgetKey :: "real option \<Rightarrow> ModelAdvisorModel \<Rightarrow> ModelAdvisorModel \<Rightarrow> real option" where
  \<comment> \<open>the \<^verbatim>\<open>if (budget) { ... }\<close> block of the comparator: the value it returns, or
      \<^term>\<open>None\<close> when control falls through to the price key\<close>
  "budgetKey budget a b =
     (case budget of
        None \<Rightarrow> None
      | Some bv \<Rightarrow>
          if bv \<noteq> 0
          then (let diffA = \<bar>nullish (avg_price_usd a) bv - bv\<bar>;
                    diffB = \<bar>nullish (avg_price_usd b) bv - bv\<bar>
                in if \<bar>diffA - diffB\<bar> > 1 / 10 ^ 6 then Some (diffA - diffB) else None)
          else None)"

definition advisor_cmp :: "real option \<Rightarrow> ModelAdvisorModel \<Rightarrow> ModelAdvisorModel \<Rightarrow> real" where
  \<comment> \<open>the comparator passed to \<^verbatim>\<open>[...workingSet].sort\<close>\<close>
  "advisor_cmp budget a b =
     (let ratingDiff = nullish (avg_rating b) 0 - nullish (avg_rating a) 0
      in if \<bar>ratingDiff\<bar> > 1 / 10 ^ 6 then (if ratingDiff > 0 then 1 else - 1)
         else (case budgetKey budget a b of
                 Some r \<Rightarrow> r
               | None \<Rightarrow>
                   (let priceA = nullish (avg_price_usd a) MAX_SAFE_INTEGER;
                        priceB = nullish (avg_price_usd b) MAX_SAFE_INTEGER
                    in priceA - priceB)))"

definition shortlist :: "ModelAdvisorResponse option \<Rightarrow> real option \<Rightarrow> string \<Rightarrow> Shortlist" where
  \<comment> \<open>the \<^verbatim>\<open>useMemo\<close> that yields \<^verbatim>\<open>recommendedModels\<close> and \<^verbatim>\<open>candidatePool\<close>\<close>
  "shortlist data budget budgetBrand =
     (case data of
        None \<Rightarrow> \<lparr>recommendedModels = [], candidatePool = []\<rparr>
      | Some d \<Rightarrow>
          if models d = [] then \<lparr>recommendedModels = [], candidatePool = []\<rparr>
          else
            let eligible = withPriceAndRating (scopedPool d budgetBrand) in
            if eligible = [] then \<lparr>recommendedModels = [], candidatePool = []\<rparr>
            else
              let sorted = js_sort (advisor_cmp budget) (workingSet budget eligible)
              in \<lparr>recommendedModels = js_slice 0 3 sorted, candidatePool = sorted\<rparr>)"

record FeatureRating =
  feature :: string
  rating :: real






definition inBudgetBand :: "real \<Rightarrow> ModelAdvisorModel \<Rightarrow> bool" where
  \<comment> \<open>the specification's bound: a known price within \<open>max (0.25 b) 100\<close> of the budget\<close>
  "inBudgetBand b m =
     (case avg_price_usd m of None \<Rightarrow> False | Some p \<Rightarrow> \<bar>p - b\<bar> \<le> max (0.25 * b) 100)"

definition toleranceShortlist :: "real option \<Rightarrow> ModelAdvisorModel list \<Rightarrow> ModelAdvisorModel list" where
  \<comment> \<open>the specification's working pool, from its own words\<close>
  "toleranceShortlist budget eligible =
     (case budget of
        None \<Rightarrow> eligible
      | Some b \<Rightarrow>
          if 3 \<le> length (filter (inBudgetBand b) eligible)
          then filter (inBudgetBand b) eligible else eligible)"

definition example_phone :: "string \<Rightarrow> string \<Rightarrow> real option \<Rightarrow> real option \<Rightarrow> ModelAdvisorModel" where
  \<comment> \<open>a snapshot entry for the worked examples: brand, model, rating, price in USD\<close>
  "example_phone b m r p =
     \<lparr>brand = b, model = m, avg_rating = r, avg_price_usd = p, avg_price_inr = None,
      avg_battery_rating = r, avg_camera_rating = None, avg_display_rating = Some 0,
      avg_performance_rating = Some 0.004, review_count = 10\<rparr>"

definition example_snapshot :: ModelAdvisorResponse where
  "example_snapshot =
     \<lparr>brands = [\<lparr>mab_brand = ''Acme'', mab_models = []\<rparr>],
      models =
        [example_phone ''Acme'' ''A1'' (Some 4.5) (Some 500),
         example_phone ''Acme'' ''A2'' (Some 4.0) (Some 600),
         example_phone ''Acme'' ''A3'' (Some 4.8) (Some 700),
         example_phone ''Acme'' ''A4'' (Some 5.0) (Some 1000),
         example_phone ''Acme'' ''A5'' (Some 5.0) None]\<rparr>"

section \<open>Supplier insights: recommendation cards\<close>

text \<open>
  The records below hold the fields that \<^verbatim>\<open>createRecommendationCards\<close> and its caller read.
  Numbers are printed by three JavaScript library functions that the embedding takes as
  parameters: \<^verbatim>\<open>x.toFixed(1)\<close>, \<^verbatim>\<open>x.toLocaleString()\<close> and the conversion of a number
  inside a template literal.
\<close>

record NumberFormat =
  toFixed1 :: "real \<Rightarrow> string"
  toLocaleString :: "real \<Rightarrow> string"
  toText :: "real \<Rightarrow> string"

datatype RecommendationPriority = Critical | High | Medium

record RecommendationCardData =
  title :: string
  description :: string
  priority :: RecommendationPriority

record SentimentCounts =
  Positive :: real
  Neutral :: real
  Negative :: real

record ComplaintVolume =
  cv_feature :: string
  cv_complaints :: real

record BrandSummary =
  summary_brand :: string
  summary_total_reviews :: real
  summary_avg_rating :: "real option"
  summary_positive_pct :: real
  summary_negative_pct :: real

record SupplierBrandInsight =
  summary :: BrandSummary
  bi_complaint_volume :: "ComplaintVolume list option"
  feature_sentiments :: "(string \<times> SentimentCounts) list option"

record ModelBreakdownEntry =
  mb_model :: string
  mb_negative_pct :: "real option"

record FeatureSentimentRow =
  fs_feature :: string
  fs_counts :: SentimentCounts
  fs_total :: real
  negativeRatio :: real

definition priorities :: "RecommendationPriority list" where
  "priorities = [Critical, High, Medium]"

definition MAX_CARDS :: nat where
  "MAX_CARDS = 3"

definition pushCard :: "string \<Rightarrow> string \<Rightarrow> RecommendationCardData list \<Rightarrow> RecommendationCardData list" where
  \<comment> \<open>\<^verbatim>\<open>priorities[cards.length] ?? "Medium"\<close>, then the push guarded by the cap\<close>
  "pushCard t d cards =
     (let p = (if length cards < length priorities then priorities ! length cards else Medium)
      in if length cards < MAX_CARDS
         then cards @ [\<lparr>title = t, description = d, priority = p\<rparr>]
         else cards)"

definition scopeSuffix :: "string \<Rightarrow> string" where
  "scopeSuffix scopeLabel =
     (if scopeLabel = ''All companies'' then [] else '' for '' @ scopeLabel)"

definition pulseCard :: "NumberFormat \<Rightarrow> string \<Rightarrow> BrandSummary \<Rightarrow> RecommendationCardData list \<Rightarrow> RecommendationCardData list" where
  "pulseCard F scopeLabel sm cards =
     (let positive = toFixed1 F (summary_positive_pct sm);
          negative = toFixed1 F (summary_negative_pct sm);
          averageRating = (if truthy (summary_avg_rating sm)
                           then toFixed1 F (nullish (summary_avg_rating sm) 0) else ''N/A'')
      in pushCard (summary_brand sm @ '': Sentiment pulse'')
           (toLocaleString F (summary_total_reviews sm) @ '' reviews'' @ scopeSuffix scopeLabel
            @ '' show '' @ positive @ ''% positive vs '' @ negative
            @ ''% negative sentiment with an average rating of '' @ averageRating
            @ ''. Launch a satisfaction uplift program focused on service quality and proactive outreach.'')
           cards)"

definition stabilizeCard :: "string \<Rightarrow> BrandSummary \<Rightarrow> RecommendationCardData list \<Rightarrow> ComplaintVolume \<Rightarrow> RecommendationCardData list" where
  "stabilizeCard scopeLabel sm cards item =
     (if length cards < MAX_CARDS
      then pushCard (summary_brand sm @ '': Stabilize '' @ cv_feature item)
             (''Sustain a recovery plan for '' @ cv_feature item @ scopeSuffix scopeLabel
              @ '' by improving diagnostics, releasing incremental firmware tweaks, and communicating timelines to affected customers.'')
             cards
      else cards)"

definition complaintCards :: "NumberFormat \<Rightarrow> string \<Rightarrow> BrandSummary \<Rightarrow> ComplaintVolume list \<Rightarrow> RecommendationCardData list \<Rightarrow> RecommendationCardData list" where
  "complaintCards F scopeLabel sm complaints cards =
     (case complaints of
        [] \<Rightarrow> cards
      | primaryComplaint # _ \<Rightarrow>
          if length cards < MAX_CARDS
          then (let cards1 =
                      pushCard (summary_brand sm @ '': Urgent fix for '' @ cv_feature primaryComplaint)
                        (toLocaleString F (cv_complaints primaryComplaint) @ '' complaints cite ''
                         @ cv_feature primaryComplaint @ scopeSuffix scopeLabel
                         @ ''. Allocate tiger teams across engineering, QA, and support to deliver a hotfix within 2 sprints.'')
                        cards
                in foldl (stabilizeCard scopeLabel sm) cards1
                     (js_slice 1 (int MAX_CARDS - int (length cards1) + 1) complaints))
          else cards)"

definition featureSentimentRow :: "string \<times> SentimentCounts \<Rightarrow> FeatureSentimentRow" where
  "featureSentimentRow fc =
     (let counts = snd fc;
          total = Positive counts + Neutral counts + Negative counts;
          ratio = (if total \<noteq> 0 then Negative counts / total else 0)
      in \<lparr>fs_feature = fst fc, fs_counts = counts, fs_total = total, negativeRatio = ratio\<rparr>)"

definition featureSentiment_cmp :: "FeatureSentimentRow \<Rightarrow> FeatureSentimentRow \<Rightarrow> real" where
  "featureSentiment_cmp a b =
     (if negativeRatio b \<noteq> negativeRatio a then negativeRatio b - negativeRatio a
      else Negative (fs_counts b) - Negative (fs_counts a))"

definition featureSentiments :: "SupplierBrandInsight \<Rightarrow> FeatureSentimentRow list" where
  \<comment> \<open>\<^verbatim>\<open>Object.entries(brandInsight.feature_sentiments ?? {}).map(..).filter(..).sort(..)\<close>\<close>
  "featureSentiments bi =
     js_sort featureSentiment_cmp
       (filter (\<lambda>entry. fs_total entry > 0)
          (map featureSentimentRow (nullish (feature_sentiments bi) [])))"

definition redesignCard :: "NumberFormat \<Rightarrow> string \<Rightarrow> BrandSummary \<Rightarrow> RecommendationCardData list \<Rightarrow> FeatureSentimentRow \<Rightarrow> RecommendationCardData list" where
  "redesignCard F scopeLabel sm cards item =
     (if length cards \<ge> MAX_CARDS then cards
      else (let negativePct = toFixed1 F (negativeRatio item * 100)
            in pushCard (summary_brand sm @ '': Redesign '' @ fs_feature item)
                 (negativePct @ ''% of mentions for '' @ fs_feature item @ scopeSuffix scopeLabel
                  @ '' skew negative. Pair usability testing with supplier audits to reverse the sentiment trend.'')
                 cards))"

definition featureCards :: "NumberFormat \<Rightarrow> string \<Rightarrow> SupplierBrandInsight \<Rightarrow> RecommendationCardData list \<Rightarrow> RecommendationCardData list" where
  "featureCards F scopeLabel bi cards =
     (if length cards < MAX_CARDS
      then foldl (redesignCard F scopeLabel (summary bi)) cards (featureSentiments bi)
      else cards)"

definition problematicModel :: "ModelBreakdownEntry list \<Rightarrow> ModelBreakdownEntry option" where
  "problematicModel brandModels =
     first_elem
       (js_sort (\<lambda>a b. nullish (mb_negative_pct b) 0 - nullish (mb_negative_pct a) 0)
          (filter (\<lambda>m. mb_negative_pct m \<noteq> None) brandModels))"

definition modelCards :: "NumberFormat \<Rightarrow> string \<Rightarrow> BrandSummary \<Rightarrow> ModelBreakdownEntry list option \<Rightarrow> RecommendationCardData list \<Rightarrow> RecommendationCardData list" where
  "modelCards F scopeLabel sm brandModels cards =
     (case brandModels of
        None \<Rightarrow> cards
      | Some bm \<Rightarrow>
          if length cards < MAX_CARDS
          then (case problematicModel bm of
                  None \<Rightarrow> cards
                | Some pm \<Rightarrow>
                    if nullish (mb_negative_pct pm) 0 > 0
                    then pushCard (summary_brand sm @ '': Model recovery for '' @ mb_model pm)
                           ((case mb_negative_pct pm of None \<Rightarrow> ''--'' | Some n \<Rightarrow> toFixed1 F n)
                            @ ''% negative sentiment on '' @ mb_model pm @ scopeSuffix scopeLabel
                            @ ''. Launch an investigative task force, align firmware fixes, and supply field service guidance to partners.'')
                           cards
                    else cards)
          else cards)"

definition delightTitle :: "BrandSummary \<Rightarrow> string" where
  "delightTitle sm = summary_brand sm @ '': Customer delight initiative''"

definition delightDescription :: "string \<Rightarrow> string" where
  "delightDescription scopeLabel =
     ''Augment post-purchase touchpoints'' @ scopeSuffix scopeLabel
     @ '' with concierge support, extended warranty offers, and proactive communications to reinforce loyalty.''"

function delightFill :: "string \<Rightarrow> string \<Rightarrow> RecommendationCardData list \<Rightarrow> RecommendationCardData list" where
  \<comment> \<open>\<^verbatim>\<open>while (cards.length < MAX_CARDS) pushCard(..)\<close>\<close>
  "delightFill t d cards =
     (if length cards < MAX_CARDS then delightFill t d (pushCard t d cards) else cards)"
  by pat_completeness auto
termination
  by (relation "measure (\<lambda>(t, d, cards). MAX_CARDS - length cards)")
    (auto simp: pushCard_def Let_def)

declare delightFill.simps [simp del]

definition brandCardsBeforeFill :: "NumberFormat \<Rightarrow> string \<Rightarrow> ComplaintVolume list \<Rightarrow> SupplierBrandInsight \<Rightarrow> ModelBreakdownEntry list option \<Rightarrow> RecommendationCardData list" where
  \<comment> \<open>the \<^verbatim>\<open>if (brandInsight)\<close> branch up to the \<^verbatim>\<open>while\<close> loop\<close>
  "brandCardsBeforeFill F scopeLabel complaints bi brandModels =
     modelCards F scopeLabel (summary bi) brandModels
       (featureCards F scopeLabel bi
          (complaintCards F scopeLabel (summary bi) complaints
             (pulseCard F scopeLabel (summary bi) [])))"

definition portfolioCard :: "NumberFormat \<Rightarrow> string \<Rightarrow> RecommendationCardData list \<Rightarrow> ComplaintVolume \<Rightarrow> RecommendationCardData list" where
  "portfolioCard F scopeLabel cards item =
     pushCard (''Portfolio: Fix '' @ cv_feature item)
       (toLocaleString F (cv_complaints item) @ '' customers flagged '' @ cv_feature item
        @ scopeSuffix scopeLabel
        @ ''. Stand up a rapid response squad to triage root causes, ship fixes, and validate improvements with targeted surveys.'')
       cards"

definition fallbackCard :: "NumberFormat \<Rightarrow> string \<Rightarrow> RecommendationCardData list \<Rightarrow> string \<Rightarrow> RecommendationCardData list" where
  "fallbackCard F scopeLabel cards text =
     (let nextNumber = real (length cards + 1);
          label = (if scopeLabel = ''All companies''
                   then ''Recommendation '' @ toText F nextNumber
                   else scopeLabel @ '': Initiative '' @ toText F nextNumber)
      in pushCard label
           (if scopeLabel = ''All companies'' then text else text @ '' ('' @ scopeLabel @ '')'')
           cards)"

definition monitorTitle :: string where
  "monitorTitle = ''Monitor customer signals''"

definition monitorDescription :: "string \<Rightarrow> string" where
  "monitorDescription scopeLabel =
     ''No urgent issues detected'' @ scopeSuffix scopeLabel
     @ ''. Keep pulse on NPS, support tickets, and social channels to catch early sentiment shifts.''"

definition portfolioCards :: "NumberFormat \<Rightarrow> string \<Rightarrow> ComplaintVolume list \<Rightarrow> string list \<Rightarrow> RecommendationCardData list" where
  \<comment> \<open>the statements after the \<^verbatim>\<open>if (brandInsight)\<close> branch\<close>
  "portfolioCards F scopeLabel complaints fallback =
     (let cards0 = [];
          cards1 = (if complaints \<noteq> []
                    then foldl (portfolioCard F scopeLabel) cards0
                           (js_slice 0 (int MAX_CARDS - int (length cards0)) complaints)
                    else cards0);
          cards2 = (if length cards1 < 3 \<and> fallback \<noteq> []
                    then foldl (fallbackCard F scopeLabel) cards1
                           (js_slice 0 (3 - int (length cards1)) fallback)
                    else cards1)
      in if cards2 = []
         then pushCard monitorTitle (monitorDescription scopeLabel) cards2
         else cards2)"

definition createRecommendationCards :: "NumberFormat \<Rightarrow> string \<Rightarrow> ComplaintVolume list \<Rightarrow> string list \<Rightarrow> SupplierBrandInsight option \<Rightarrow> ModelBreakdownEntry list option \<Rightarrow> RecommendationCardData list" where
  "createRecommendationCards F scopeLabel complaints fallback brandInsight brandModels =
     (case brandInsight of
        Some bi \<Rightarrow>
          delightFill (delightTitle (summary bi)) (delightDescription scopeLabel)
            (brandCardsBeforeFill F scopeLabel complaints bi brandModels)
      | None \<Rightarrow> portfolioCards F scopeLabel complaints fallback)"


definition tiered :: "RecommendationCardData list \<Rightarrow> bool" where
  \<comment> \<open>the cards respect the cap and carry the tiers of \<^const>\<open>priorities\<close> by position\<close>
  "tiered cards \<longleftrightarrow>
     length cards \<le> MAX_CARDS \<and> map priority cards = take (length cards) priorities"

definition extends :: "RecommendationCardData list \<Rightarrow> RecommendationCardData list \<Rightarrow> bool" where
  \<comment> \<open>a step of the generator only appends, and keeps the cards tiered\<close>
  "extends cards cards' \<longleftrightarrow> prefix cards cards' \<and> (tiered cards \<longrightarrow> tiered cards')"

definition delightCard :: "BrandSummary \<Rightarrow> string \<Rightarrow> nat \<Rightarrow> RecommendationCardData" where
  \<comment> \<open>the filler card as it stands at position \<open>i\<close> of the result\<close>
  "delightCard sm scopeLabel i =
     \<lparr>title = delightTitle sm, description = delightDescription scopeLabel,
      priority = priorities ! i\<rparr>"

definition plainFormat :: NumberFormat where
  \<comment> \<open>a stand-in for the three printing functions, for the worked examples\<close>
  "plainFormat = \<lparr>toFixed1 = (\<lambda>x. ''n''), toLocaleString = (\<lambda>x. ''n''), toText = (\<lambda>x. ''n'')\<rparr>"

definition example_insight :: SupplierBrandInsight where
  "example_insight =
     \<lparr>summary = \<lparr>summary_brand = ''Acme'', summary_total_reviews = 120,
                  summary_avg_rating = Some 4.1, summary_positive_pct = 70,
                  summary_negative_pct = 20\<rparr>,
      bi_complaint_volume = None,
      feature_sentiments = Some [(''camera'', \<lparr>Positive = 0, Neutral = 0, Negative = 0\<rparr>)]\<rparr>"


section \<open>Supplier insights: the page around the generator\<close>

record BrandOverviewEntry =
  bo_brand :: string

record SupplierDatasetInsight =
  brand_overview :: "BrandOverviewEntry list"
  model_breakdown :: "(string \<times> ModelBreakdownEntry list) list"
  complaint_volume :: "ComplaintVolume list option"
  recommendations :: "string list option"
  brand_insights :: "(string \<times> SupplierBrandInsight) list option"

definition supplierBrandOptions :: "SupplierDatasetInsight \<Rightarrow> string list" where
  "supplierBrandOptions ds = map bo_brand (brand_overview ds)"

definition supplierBrandEffect :: "SupplierDatasetInsight \<Rightarrow> string \<Rightarrow> string" where
  \<comment> \<open>the \<^verbatim>\<open>useEffect\<close> on \<^verbatim>\<open>[brandOptions, selectedBrand]\<close>: the selected brand after it ran\<close>
  "supplierBrandEffect ds selectedBrand =
     (if selectedBrand = ''all'' then selectedBrand
      else if selectedBrand \<notin> set (supplierBrandOptions ds) then ''all''
      else selectedBrand)"

text \<open>
  The snapshot is parsed JSON, so \<^verbatim>\<open>brand_insights\<close> and \<^verbatim>\<open>model_breakdown\<close> are plain
  objects, and the page reads them with \<^verbatim>\<open>obj[selectedBrand]\<close>. Such a read finds the
  object's own keys and also the properties every object inherits from
  \<^verbatim>\<open>Object.prototype\<close>: a brand named \<^verbatim>\<open>constructor\<close> that is not an own key yields a
  function, not \<^verbatim>\<open>undefined\<close>. The inherited values are functions (and, for
  \<^verbatim>\<open>__proto__\<close>, the prototype object): truthy, without a \<^verbatim>\<open>summary\<close> or a
  \<^verbatim>\<open>complaint_volume\<close>, and not iterable. Reading \<^verbatim>\<open>summary.positive_pct\<close> of such a
  value, or spreading it with \<^verbatim>\<open>[...brandModels]\<close>, raises a \<^verbatim>\<open>TypeError\<close>.
\<close>

datatype 'a property = Own 'a | Inherited | Absent

datatype js_error = TypeError

definition inheritedNames :: "string list" where
  \<comment> \<open>the property names of \<^verbatim>\<open>Object.prototype\<close>\<close>
  "inheritedNames =
     [''constructor'', ''__defineGetter__'', ''__defineSetter__'', ''hasOwnProperty'',
      ''__lookupGetter__'', ''__lookupSetter__'', ''isPrototypeOf'', ''propertyIsEnumerable'',
      ''toString'', ''valueOf'', ''__proto__'', ''toLocaleString'']"

definition js_get :: "(string \<times> 'a) list \<Rightarrow> string \<Rightarrow> 'a property" where
  \<comment> \<open>\<^verbatim>\<open>obj[key]\<close> on a plain object given by its own entries\<close>
  "js_get obj key =
     (case map_of obj key of
        Some v \<Rightarrow> Own v
      | None \<Rightarrow> if key \<in> set inheritedNames then Inherited else Absent)"

definition brandInsightOf :: "SupplierDatasetInsight \<Rightarrow> string \<Rightarrow> SupplierBrandInsight property" where
  \<comment> \<open>\<^verbatim>\<open>activeDataset.brand_insights?.[selectedBrand] ?? null\<close>\<close>
  "brandInsightOf ds selectedBrand =
     (if selectedBrand = ''all'' then Absent
      else (case brand_insights ds of None \<Rightarrow> Absent | Some bis \<Rightarrow> js_get bis selectedBrand))"

definition brandModelsOf :: "SupplierDatasetInsight \<Rightarrow> string \<Rightarrow> ModelBreakdownEntry list property" where
  \<comment> \<open>\<^verbatim>\<open>activeDataset.model_breakdown[selectedBrand] ?? null\<close>\<close>
  "brandModelsOf ds selectedBrand =
     (if selectedBrand = ''all'' then Absent else js_get (model_breakdown ds) selectedBrand)"

definition scopedComplaintVolume :: "SupplierDatasetInsight \<Rightarrow> string \<Rightarrow> ComplaintVolume list" where
  \<comment> \<open>\<^verbatim>\<open>(brandInsight?.complaint_volume?.length ? brandInsight.complaint_volume : overallComplaintVolume).slice(0, 6)\<close>\<close>
  "scopedComplaintVolume ds selectedBrand =
     (let overallComplaintVolume = nullish (complaint_volume ds) [];
          own = (case brandInsightOf ds selectedBrand of
                   Own bi \<Rightarrow> nullish (bi_complaint_volume bi) []
                 | Inherited \<Rightarrow> []
                 | Absent \<Rightarrow> [])
      in js_slice 0 6 (if own \<noteq> [] then own else overallComplaintVolume))"

definition recommendationCards :: "NumberFormat \<Rightarrow> SupplierDatasetInsight \<Rightarrow> string \<Rightarrow> js_error + RecommendationCardData list" where
  \<comment> \<open>the call of \<^verbatim>\<open>createRecommendationCards\<close> in the page body. An inherited value in
      place of the insight raises at \<^verbatim>\<open>summary.positive_pct\<close>; one in place of the models
      raises at \<^verbatim>\<open>[...brandModels]\<close>, which is evaluated when the earlier sources left a
      slot free, and is not read otherwise\<close>
  "recommendationCards F ds selectedBrand =
     (let scopeLabel = (if selectedBrand = ''all'' then ''All companies'' else selectedBrand);
          complaints = scopedComplaintVolume ds selectedBrand;
          fallback = (if selectedBrand = ''all'' then nullish (recommendations ds) [] else [])
      in case brandInsightOf ds selectedBrand of
           Absent \<Rightarrow>
             Inr (createRecommendationCards F scopeLabel complaints fallback None
                    (case brandModelsOf ds selectedBrand of Own bm \<Rightarrow> Some bm | _ \<Rightarrow> None))
         | Inherited \<Rightarrow> Inl TypeError
         | Own bi \<Rightarrow>
             (case brandModelsOf ds selectedBrand of
                Own bm \<Rightarrow>
                  Inr (createRecommendationCards F scopeLabel complaints fallback (Some bi) (Some bm))
              | Absent \<Rightarrow>
                  Inr (createRecommendationCards F scopeLabel complaints fallback (Some bi) None)
              | Inherited \<Rightarrow>
                  if length (featureCards F scopeLabel bi
                               (complaintCards F scopeLabel (summary bi) complaints
                                  (pulseCard F scopeLabel (summary bi) []))) < MAX_CARDS
                  then Inl TypeError
                  else Inr (createRecommendationCards F scopeLabel complaints fallback
                              (Some bi) None)))"

section \<open>Model advisor: the scope-reset effect\<close>

definition brandOptions :: "ModelAdvisorResponse option \<Rightarrow> string list" where
  "brandOptions data = (case data of None \<Rightarrow> [] | Some d \<Rightarrow> map mab_brand (brands d))"

definition scopeEffect :: "ModelAdvisorResponse option \<Rightarrow> string \<times> string \<Rightarrow> string \<times> string" where
  \<comment> \<open>the \<^verbatim>\<open>useEffect\<close> on \<^verbatim>\<open>[brandOptions, selectedBrand, budgetBrand]\<close>: the pair
      \<^verbatim>\<open>(selectedBrand, budgetBrand)\<close> after it ran\<close>
  "scopeEffect data st =
     (if brandOptions data = [] then (''all'', ''all'')
      else ((if fst st \<noteq> ''all'' \<and> fst st \<notin> set (brandOptions data) then ''all'' else fst st),
            (if snd st \<noteq> ''all'' \<and> snd st \<notin> set (brandOptions data) then ''all'' else snd st)))"

section \<open>Buyer insights: recommendations\<close>

text \<open>
  \<^verbatim>\<open>generateBuyerRecommendations\<close> compares entries of \<^verbatim>\<open>model_analysis\<close> by object
  identity (\<^verbatim>\<open>model !== bestModel\<close>), so an entry is modelled together with its index in
  that array, and identity is equality of indices.
\<close>

record StrongFeature =
  sf_feature :: string
  sf_positive_pct :: real
  sf_mentions :: real

record ModelAnalysisEntry =
  ma_brand :: string
  ma_model :: string
  ma_avg_rating :: "real option"
  ma_positive_pct :: "real option"
  strongest_features :: "StrongFeature list option"

record BrandAnalysisEntry =
  ba_brand :: string
  ba_total_reviews :: real
  ba_positive_pct :: real
  ba_negative_pct :: real

record ModelLeaderboardEntry =
  lb_brand :: string
  lb_model :: string

record SegmentSummary =
  seg_total_reviews :: real
  seg_positive_pct :: real
  seg_negative_pct :: real

record BuyerBrandSegment =
  seg_summary :: "SegmentSummary option"
  top_models :: "ModelLeaderboardEntry list option"

record BuyerInsightsDataset =
  brand_analysis :: "BrandAnalysisEntry list option"
  model_analysis :: "ModelAnalysisEntry list option"

record BuyerRecommendation =
  rec_title :: string
  rec_description :: string

type_synonym model_ref = "nat \<times> ModelAnalysisEntry"

fun js_join :: "string \<Rightarrow> string list \<Rightarrow> string" where
  "js_join sep [] = []"
| "js_join sep [x] = x"
| "js_join sep (x # y # ys) = x @ sep @ js_join sep (y # ys)"

definition buyerScore :: "ModelAnalysisEntry \<Rightarrow> real" where
  \<comment> \<open>\<^verbatim>\<open>(m.positive_pct ?? 0) + (m.avg_rating ?? 0)\<close>\<close>
  "buyerScore m = nullish (ma_positive_pct m) 0 + nullish (ma_avg_rating m) 0"

definition bestModel_cmp :: "model_ref \<Rightarrow> model_ref \<Rightarrow> real" where
  "bestModel_cmp a b =
     (let bScore = buyerScore (snd b); aScore = buyerScore (snd a) in bScore - aScore)"

definition findModel :: "string \<Rightarrow> string \<Rightarrow> model_ref list \<Rightarrow> model_ref option" where
  \<comment> \<open>\<^verbatim>\<open>scopedModels.find((model) => model.brand === c.brand && model.model === c.model)\<close>\<close>
  "findModel b m scopedModels =
     List.find (\<lambda>e. ma_brand (snd e) = b \<and> ma_model (snd e) = m) scopedModels"

definition topModelsOf :: "BuyerBrandSegment option \<Rightarrow> ModelLeaderboardEntry list" where
  \<comment> \<open>\<^verbatim>\<open>brandSegment?.top_models\<close>, empty when a link of the chain is absent\<close>
  "topModelsOf brandSegment =
     (case brandSegment of None \<Rightarrow> [] | Some s \<Rightarrow> nullish (top_models s) [])"

definition bestModelOf :: "model_ref list \<Rightarrow> BuyerBrandSegment option \<Rightarrow> model_ref option" where
  "bestModelOf scopedModels brandSegment =
     (case first_elem (js_sort bestModel_cmp scopedModels) of
        Some best \<Rightarrow> Some best
      | None \<Rightarrow>
          (case topModelsOf brandSegment of
             [] \<Rightarrow> None
           | candidate # _ \<Rightarrow> findModel (lb_brand candidate) (lb_model candidate) scopedModels))"

definition otherModelOf :: "model_ref list \<Rightarrow> BuyerBrandSegment option \<Rightarrow> model_ref option \<Rightarrow> model_ref option" where
  "otherModelOf scopedModels brandSegment bestModel =
     (case first_elem
             (js_sort (\<lambda>a b. nullish (ma_positive_pct (snd b)) 0 - nullish (ma_positive_pct (snd a)) 0)
                (filter (\<lambda>m. case bestModel of None \<Rightarrow> True | Some bm \<Rightarrow> fst m \<noteq> fst bm)
                   scopedModels)) of
        Some other \<Rightarrow> Some other
      | None \<Rightarrow>
          (case List.find
                  (\<lambda>entry. case bestModel of
                              None \<Rightarrow> True
                            | Some bm \<Rightarrow> lb_model entry \<noteq> ma_model (snd bm)
                                         \<or> lb_brand entry \<noteq> ma_brand (snd bm))
                  (topModelsOf brandSegment) of
             None \<Rightarrow> None
           | Some fallbackCandidate \<Rightarrow>
               findModel (lb_brand fallbackCandidate) (lb_model fallbackCandidate) scopedModels))"

definition ratingText :: "NumberFormat \<Rightarrow> real option \<Rightarrow> string" where
  \<comment> \<open>\<^verbatim>\<open>${m.avg_rating ?? "N/A"}\<close>\<close>
  "ratingText F r = (case r of None \<Rightarrow> ''N/A'' | Some x \<Rightarrow> toText F x)"

definition topPickCards :: "NumberFormat \<Rightarrow> string \<Rightarrow> model_ref option \<Rightarrow> BuyerRecommendation list" where
  \<comment> \<open>the \<^verbatim>\<open>if (bestModel)\<close> block: the top pick and its standout feature\<close>
  "topPickCards F selectedBrand bestModel =
     (case bestModel of
        None \<Rightarrow> []
      | Some bm \<Rightarrow>
          (let m = snd bm;
               positivePct = (case ma_positive_pct m of None \<Rightarrow> ''--'' | Some p \<Rightarrow> toFixed1 F p);
               pick = \<lparr>rec_title = ma_brand m @ '' '' @ ma_model m @ '' is your top pick'',
                       rec_description = ma_model m @ '' leads ''
                         @ (if selectedBrand = ''all'' then ''across datasets'' else ''within the brand'')
                         @ '' with '' @ positivePct
                         @ ''% positive sentiment and an average rating of ''
                         @ ratingText F (ma_avg_rating m)
                         @ ''. Prioritize this model if you need a balanced flagship experience.''\<rparr>
           in case first_elem (nullish (strongest_features m) []) of
                None \<Rightarrow> [pick]
              | Some standoutFeature \<Rightarrow>
                  [pick,
                   \<lparr>rec_title = ''What makes '' @ ma_model m @ '' stand out'',
                    rec_description = sf_feature standoutFeature @ '' earns ''
                      @ toText F (sf_positive_pct standoutFeature) @ ''% positive feedback (''
                      @ toText F (sf_mentions standoutFeature)
                      @ '' mentions). Spotlight this feature when comparing against alternatives.''\<rparr>]))"

definition brandCards :: "NumberFormat \<Rightarrow> string \<Rightarrow> BrandAnalysisEntry list \<Rightarrow> BuyerBrandSegment option \<Rightarrow> BuyerRecommendation list" where
  \<comment> \<open>the \<^verbatim>\<open>if (selectedBrand === "all") .. else ..\<close> block: market leader or brand health\<close>
  "brandCards F selectedBrand scopedBrands brandSegment =
     (if selectedBrand = ''all''
      then (case first_elem scopedBrands of
              None \<Rightarrow> []
            | Some leadingBrand \<Rightarrow>
                [\<lparr>rec_title = ba_brand leadingBrand @ '' leads the market'',
                  rec_description = ba_brand leadingBrand @ '' secures ''
                    @ toText F (ba_positive_pct leadingBrand) @ ''% positive sentiment against ''
                    @ toText F (ba_negative_pct leadingBrand) @ ''% negative across ''
                    @ toLocaleString F (ba_total_reviews leadingBrand)
                    @ '' reviews. Use this brand as a benchmark for reliability and customer satisfaction.''\<rparr>])
      else (let analysisEntry = first_elem scopedBrands;
                segSummary = (case brandSegment of None \<Rightarrow> None | Some s \<Rightarrow> seg_summary s);
                totalReviews = (case segSummary of
                                  Some sm \<Rightarrow> Some (seg_total_reviews sm)
                                | None \<Rightarrow> map_option ba_total_reviews analysisEntry);
                positivePct = (case segSummary of
                                 Some sm \<Rightarrow> Some (seg_positive_pct sm)
                               | None \<Rightarrow> map_option ba_positive_pct analysisEntry);
                negativePct = (case segSummary of
                                 Some sm \<Rightarrow> Some (seg_negative_pct sm)
                               | None \<Rightarrow> map_option ba_negative_pct analysisEntry)
            in case (totalReviews, positivePct, negativePct) of
                 (Some t, Some p, Some n) \<Rightarrow>
                   [\<lparr>rec_title = selectedBrand @ '' brand health check'',
                     rec_description = toText F p @ ''% positive vs '' @ toText F n
                       @ ''% negative sentiment across '' @ toLocaleString F t
                       @ '' reviews. Reinforce service touchpoints and marketing to keep sentiment trending upward.''\<rparr>]
               | _ \<Rightarrow> []))"

definition secondaryCards :: "NumberFormat \<Rightarrow> model_ref option \<Rightarrow> BuyerRecommendation list" where
  "secondaryCards F otherModel =
     (case otherModel of
        None \<Rightarrow> []
      | Some om \<Rightarrow>
          (let m = snd om;
               joined = (case strongest_features m of
                           None \<Rightarrow> []
                         | Some fs \<Rightarrow> js_join '', '' (js_slice 0 2 (map sf_feature fs)));
               highlights = (if joined \<noteq> [] then joined else ''core usability'')
           in [\<lparr>rec_title = ''Secondary option: '' @ ma_brand m @ '' '' @ ma_model m,
                 rec_description = ma_model m @ '' posts ''
                   @ (case ma_positive_pct m of None \<Rightarrow> ''undefined'' | Some p \<Rightarrow> toText F p)
                   @ ''% positive sentiment and '' @ ratingText F (ma_avg_rating m)
                   @ '' star ratings. Consider it if you value its highlighted features: ''
                   @ highlights @ ''.''\<rparr>]))"

definition monitorFeedback :: BuyerRecommendation where
  "monitorFeedback =
     \<lparr>rec_title = ''Monitor customer feedback'',
      rec_description = ''We need more recent reviews for this brand. Keep tracking sentiment to identify winning models as data grows.''\<rparr>"

definition scopedModels :: "BuyerInsightsDataset \<Rightarrow> string \<Rightarrow> model_ref list" where
  "scopedModels dataset selectedBrand =
     (let modelPool = enumerate 0 (nullish (model_analysis dataset) [])
      in if selectedBrand = ''all'' then modelPool
         else filter (\<lambda>m. ma_brand (snd m) = selectedBrand) modelPool)"

definition scopedBrands :: "BuyerInsightsDataset \<Rightarrow> string \<Rightarrow> BrandAnalysisEntry list" where
  "scopedBrands dataset selectedBrand =
     (let brandPool = nullish (brand_analysis dataset) []
      in if selectedBrand = ''all'' then brandPool
         else filter (\<lambda>b. ba_brand b = selectedBrand) brandPool)"

definition buyerSourceCards :: "NumberFormat \<Rightarrow> BuyerInsightsDataset \<Rightarrow> string \<Rightarrow> BuyerBrandSegment option \<Rightarrow> BuyerRecommendation list" where
  \<comment> \<open>\<^verbatim>\<open>recommendations\<close> as it stands before the \<^verbatim>\<open>if (!recommendations.length)\<close> test\<close>
  "buyerSourceCards F dataset selectedBrand brandSegment =
     (let pool = scopedModels dataset selectedBrand;
          bestModel = bestModelOf pool brandSegment;
          otherModel = otherModelOf pool brandSegment bestModel
      in topPickCards F selectedBrand bestModel
         @ brandCards F selectedBrand (scopedBrands dataset selectedBrand) brandSegment
         @ secondaryCards F otherModel)"

definition generateBuyerRecommendations :: "NumberFormat \<Rightarrow> BuyerInsightsDataset \<Rightarrow> string \<Rightarrow> BuyerBrandSegment option \<Rightarrow> BuyerRecommendation list" where
  "generateBuyerRecommendations F dataset selectedBrand brandSegment =
     (let recommendations = buyerSourceCards F dataset selectedBrand brandSegment;
          recommendations' = (if recommendations = [] then recommendations @ [monitorFeedback]
                              else recommendations)
      in js_slice 0 4 recommendations')"

definition zeroRating :: "ModelAnalysisEntry \<Rightarrow> ModelAnalysisEntry" where
  \<comment> \<open>the same entry with an absent rating or positive share replaced by a measured 0\<close>
  "zeroRating m =
     m\<lparr>ma_avg_rating := Some (nullish (ma_avg_rating m) 0),
       ma_positive_pct := Some (nullish (ma_positive_pct m) 0)\<rparr>"

definition example_entry :: "string \<Rightarrow> real option \<Rightarrow> real option \<Rightarrow> ModelAnalysisEntry" where
  "example_entry m pct r =
     \<lparr>ma_brand = ''Acme'', ma_model = m, ma_avg_rating = r, ma_positive_pct = pct,
      strongest_features = None\<rparr>"


definition example_dataset :: SupplierDatasetInsight where
  "example_dataset =
     \<lparr>brand_overview = [\<lparr>bo_brand = ''Acme''\<rparr>],
      model_breakdown = [],
      complaint_volume = None,
      recommendations = Some [''Improve onboarding''],
      brand_insights = Some [(''Acme'', example_insight)]\<rparr>"


section \<open>Properties of the library functions\<close>

lemma set_sort_insert: "set (sort_insert cmp x ys) = insert x (set ys)"
  by (induction ys) auto

lemma length_sort_insert: "length (sort_insert cmp x ys) = Suc (length ys)"
  by (induction ys) auto

lemma set_js_sort: "set (js_sort cmp xs) = set xs"
  unfolding js_sort_def by (induction xs) (simp_all add: set_sort_insert)

lemma length_js_sort: "length (js_sort cmp xs) = length xs"
  unfolding js_sort_def by (induction xs) (simp_all add: length_sort_insert)

lemma js_slice_prefix: "0 \<le> e \<Longrightarrow> js_slice 0 e xs = take (nat e) xs"
  by (simp add: js_slice_def Let_def min_def)

lemma take_min_length: "take (min n (length xs)) xs = take n xs"
  by (cases "n \<le> length xs") (simp_all add: min_def)

lemma example_eligible:
  "withPriceAndRating (models example_snapshot) =
     [example_phone ''Acme'' ''A1'' (Some 4.5) (Some 500),
      example_phone ''Acme'' ''A2'' (Some 4.0) (Some 600),
      example_phone ''Acme'' ''A3'' (Some 4.8) (Some 700),
      example_phone ''Acme'' ''A4'' (Some 5.0) (Some 1000)]"
  by (simp add: withPriceAndRating_def example_snapshot_def example_phone_def
      del: not_None_eq)

lemma example_scoped_all: "scopedPool example_snapshot ''all'' = models example_snapshot"
  by (simp add: scopedPool_def)


section \<open>Shortlist selection\<close>



lemma workingSet_None: "workingSet None eligible = eligible"
  by (simp add: workingSet_def tolerance_def)



lemma toleranceShortlist_Nil: "toleranceShortlist budget [] = []"
  by (simp add: toleranceShortlist_def split: option.splits)

lemma candidatePool_set:
  "set (candidatePool (shortlist (Some d) budget budgetBrand)) =
   set (workingSet budget (withPriceAndRating (scopedPool d budgetBrand)))"
proof (cases "withPriceAndRating (scopedPool d budgetBrand) = []")
  case True
  then show ?thesis
    by (simp add: shortlist_def Let_def workingSet_def withinTolerance_def
          split: option.splits prod.splits)
next
  case False
  then have "models d \<noteq> []"
    by (auto simp: withPriceAndRating_def scopedPool_def split: if_splits)
  with False show ?thesis
    by (simp add: shortlist_def Let_def set_js_sort)
qed




section \<open>Top-3 extraction and eligibility\<close>

text \<open>
  Claim C6. For every snapshot (loaded or not), budget and brand scope, at most three models
  are recommended, and they are the first \<open>min 3 |candidatePool|\<close> entries of the ranked
  candidate pool, in the same order.
\<close>

theorem recommended_prefix_of_pool:
  "length (recommendedModels (shortlist data budget budgetBrand)) \<le> 3
   \<and> recommendedModels (shortlist data budget budgetBrand) =
       take (min 3 (length (candidatePool (shortlist data budget budgetBrand))))
         (candidatePool (shortlist data budget budgetBrand))"
  by (simp add: shortlist_def Let_def js_slice_prefix take_min_length split: option.splits)

theorem recommended_prefix_of_pool_witness:
  "length (recommendedModels (shortlist (Some example_snapshot) None ''all'')) = 3
   \<and> length (candidatePool (shortlist (Some example_snapshot) None ''all'')) = 4
   \<and> recommendedModels (shortlist (Some example_snapshot) None ''all'') =
       take 3 (candidatePool (shortlist (Some example_snapshot) None ''all''))"
proof -
  have pool: "length (candidatePool (shortlist (Some example_snapshot) None ''all'')) = 4"
    by (simp add: shortlist_def Let_def length_js_sort workingSet_None example_scoped_all
        example_eligible)
      (simp add: example_snapshot_def)
  show ?thesis
    using pool recommended_prefix_of_pool [of "Some example_snapshot" None "''all''"]
    by simp
qed

text \<open>
  Claim C7. No model with an absent price or an absent rating is in the candidate pool, and
  so none is among the recommended models: such models are removed before ranking.
\<close>

theorem candidatePool_has_price_and_rating:
  assumes "m \<in> set (candidatePool (shortlist data budget budgetBrand))
           \<or> m \<in> set (recommendedModels (shortlist data budget budgetBrand))"
  shows "avg_price_usd m \<noteq> None \<and> avg_rating m \<noteq> None"
proof -
  have sub: "set (recommendedModels (shortlist data budget budgetBrand))
             \<subseteq> set (candidatePool (shortlist data budget budgetBrand))"
    by (auto simp: shortlist_def Let_def js_slice_prefix split: option.splits
        dest: in_set_takeD)
  with assms have m: "m \<in> set (candidatePool (shortlist data budget budgetBrand))"
    by blast
  then obtain d where d: "data = Some d"
    by (cases data) (simp_all add: shortlist_def)
  have "set (workingSet budget (withPriceAndRating (scopedPool d budgetBrand)))
        \<subseteq> set (withPriceAndRating (scopedPool d budgetBrand))"
    by (auto simp: workingSet_def withinTolerance_def Let_def split: option.splits if_splits)
  with m d have "m \<in> set (withPriceAndRating (scopedPool d budgetBrand))"
    using candidatePool_set [of d budget budgetBrand] by blast
  then show ?thesis
    by (simp add: withPriceAndRating_def)
qed

theorem candidatePool_has_price_and_rating_witness:
  "example_phone ''Acme'' ''A4'' (Some 5.0) (Some 1000)
     \<in> set (candidatePool (shortlist (Some example_snapshot) None ''all''))
   \<and> avg_price_usd (example_phone ''Acme'' ''A4'' (Some 5.0) (Some 1000)) \<noteq> None
   \<and> example_phone ''Acme'' ''A5'' (Some 5.0) None
     \<notin> set (candidatePool (shortlist (Some example_snapshot) None ''all''))"
proof -
  have mem: "example_phone ''Acme'' ''A4'' (Some 5.0) (Some 1000)
             \<in> set (candidatePool (shortlist (Some example_snapshot) None ''all''))"
    by (simp add: candidatePool_set workingSet_None example_scoped_all example_eligible)
  have out: "example_phone ''Acme'' ''A5'' (Some 5.0) None
             \<notin> set (candidatePool (shortlist (Some example_snapshot) None ''all''))"
    using candidatePool_has_price_and_rating
      [of "example_phone ''Acme'' ''A5'' (Some 5.0) None" "Some example_snapshot" None "''all''"]
    by (auto simp: example_phone_def)
  show ?thesis
    using mem out candidatePool_has_price_and_rating
      [of "example_phone ''Acme'' ''A4'' (Some 5.0) (Some 1000)"
          "Some example_snapshot" None "''all''"]
    by blast
qed


section \<open>The ranker's comparator\<close>







text \<open>
  The ordering part of the statement above is about a list of two candidates. The comparator
  is not transitive: of three models rated 4.5, 4.5000008 and 4.5000016 and priced 100, 200
  and 300, each precedes the next and the last precedes the first. For three or more
  candidates the keys therefore do not fix the sorted order.
\<close>

lemma advisor_cmp_not_transitive:
  "advisor_cmp None (example_phone ''Acme'' ''M0'' (Some 4.5) (Some 100))
     (example_phone ''Acme'' ''M1'' (Some 4.5000008) (Some 200)) < 0
   \<and> advisor_cmp None (example_phone ''Acme'' ''M1'' (Some 4.5000008) (Some 200))
     (example_phone ''Acme'' ''M2'' (Some 4.5000016) (Some 300)) < 0
   \<and> advisor_cmp None (example_phone ''Acme'' ''M2'' (Some 4.5000016) (Some 300))
     (example_phone ''Acme'' ''M0'' (Some 4.5) (Some 100)) < 0"
  by (simp add: advisor_cmp_def budgetKey_def nullish_def Let_def example_phone_def)

section \<open>Feature averages\<close>












section \<open>Supplier cards: cap and tiers\<close>

lemma pushCard_prefix: "prefix cards (pushCard t d cards)"
  by (simp add: pushCard_def Let_def)

lemma pushCard_tiered:
  assumes "tiered cards"
  shows "tiered (pushCard t d cards)"
proof (cases "length cards < MAX_CARDS")
  case True
  then have lt: "length cards < length priorities"
    by (simp add: MAX_CARDS_def priorities_def)
  have "take (Suc (length cards)) priorities = take (length cards) priorities @ [priorities ! length cards]"
    using lt by (rule take_Suc_conv_app_nth)
  with assms True lt show ?thesis
    by (simp add: tiered_def pushCard_def Let_def)
next
  case False
  with assms show ?thesis by (simp add: pushCard_def Let_def)
qed

lemma extends_refl: "extends cards cards"
  by (simp add: extends_def)

lemma extends_trans: "extends a b \<Longrightarrow> extends b c \<Longrightarrow> extends a c"
  by (auto simp: extends_def)

lemma extends_pushCard: "extends cards (pushCard t d cards)"
  by (simp add: extends_def pushCard_prefix pushCard_tiered)

lemma extends_foldl:
  assumes "\<And>cs x. extends cs (f cs x)"
  shows "extends cards (foldl f cards xs)"
proof (induction xs arbitrary: cards)
  case Nil
  show ?case by (simp add: extends_refl)
next
  case (Cons x xs)
  have "extends cards (f cards x)" by (rule assms)
  moreover have "extends (f cards x) (foldl f (f cards x) xs)" by (rule Cons.IH)
  ultimately show ?case by (simp add: extends_trans)
qed

lemma extends_pulseCard: "extends cards (pulseCard F scopeLabel sm cards)"
  by (simp add: pulseCard_def Let_def extends_pushCard)

lemma extends_stabilizeCard: "extends cards (stabilizeCard scopeLabel sm cards item)"
  by (simp add: stabilizeCard_def extends_pushCard extends_refl)

lemma extends_complaintCards: "extends cards (complaintCards F scopeLabel sm complaints cards)"
proof (cases complaints)
  case Nil
  then show ?thesis by (simp add: complaintCards_def extends_refl)
next
  case (Cons c cs)
  show ?thesis
  proof (cases "length cards < MAX_CARDS")
    case True
    with Cons show ?thesis
      unfolding complaintCards_def Let_def
      by (simp only: list.case if_True)
        (blast intro: extends_trans extends_pushCard extends_foldl extends_stabilizeCard)
  next
    case False
    with Cons show ?thesis by (simp add: complaintCards_def extends_refl)
  qed
qed

lemma extends_redesignCard: "extends cards (redesignCard F scopeLabel sm cards item)"
  by (simp add: redesignCard_def Let_def extends_pushCard extends_refl)

lemma extends_featureCards: "extends cards (featureCards F scopeLabel bi cards)"
  by (simp add: featureCards_def extends_refl extends_foldl extends_redesignCard)

lemma extends_modelCards: "extends cards (modelCards F scopeLabel sm brandModels cards)"
  by (simp add: modelCards_def extends_refl extends_pushCard split: option.splits)

lemma extends_portfolioCard: "extends cards (portfolioCard F scopeLabel cards item)"
  by (simp add: portfolioCard_def extends_pushCard)

lemma extends_fallbackCard: "extends cards (fallbackCard F scopeLabel cards text)"
  by (simp add: fallbackCard_def Let_def extends_pushCard)

lemma tiered_Nil: "tiered []"
  by (simp add: tiered_def)

lemma pulseCard_Nil:
  "\<exists>d. pulseCard F scopeLabel sm [] =
         [\<lparr>title = summary_brand sm @ '': Sentiment pulse'', description = d, priority = Critical\<rparr>]"
  by (simp add: pulseCard_def pushCard_def Let_def MAX_CARDS_def priorities_def)

lemma extends_brandCardsBeforeFill:
  "extends (pulseCard F scopeLabel (summary bi) [])
     (brandCardsBeforeFill F scopeLabel complaints bi brandModels)"
  unfolding brandCardsBeforeFill_def
  by (blast intro: extends_trans extends_complaintCards extends_featureCards extends_modelCards)

lemma tiered_brandCardsBeforeFill:
  "tiered (brandCardsBeforeFill F scopeLabel complaints bi brandModels)"
proof -
  have "tiered (pulseCard F scopeLabel (summary bi) [])"
    using extends_pulseCard [of "[]" F scopeLabel "summary bi"] tiered_Nil
    by (simp add: extends_def)
  then show ?thesis
    using extends_brandCardsBeforeFill [of F scopeLabel bi complaints brandModels]
    by (simp add: extends_def)
qed

lemma delightFill_tiered: "tiered cards \<Longrightarrow> tiered (delightFill t d cards)"
proof (induction t d cards rule: delightFill.induct)
  case (1 t d cards)
  show ?case
  proof (cases "length cards < MAX_CARDS")
    case True
    then have "delightFill t d cards = delightFill t d (pushCard t d cards)"
      by (subst delightFill.simps) simp
    with True 1 show ?thesis by (simp add: pushCard_tiered)
  next
    case False
    then have "delightFill t d cards = cards"
      by (subst delightFill.simps) simp
    with 1 show ?thesis by simp
  qed
qed

lemma tiered_portfolioCards: "tiered (portfolioCards F scopeLabel complaints fallback)"
proof -
  define cards1 where "cards1 =
    (if complaints \<noteq> []
     then foldl (portfolioCard F scopeLabel) []
            (js_slice 0 (int MAX_CARDS - int (length ([] :: RecommendationCardData list))) complaints)
     else [])"
  define cards2 where "cards2 =
    (if length cards1 < 3 \<and> fallback \<noteq> []
     then foldl (fallbackCard F scopeLabel) cards1 (js_slice 0 (3 - int (length cards1)) fallback)
     else cards1)"
  have "extends [] cards1"
    by (simp add: cards1_def extends_refl extends_foldl extends_portfolioCard)
  then have t1: "tiered cards1"
    by (simp add: extends_def tiered_Nil)
  have "extends cards1 cards2"
    by (simp add: cards2_def extends_refl extends_foldl extends_fallbackCard)
  with t1 have t2: "tiered cards2"
    by (simp add: extends_def)
  have "portfolioCards F scopeLabel complaints fallback =
        (if cards2 = [] then pushCard monitorTitle (monitorDescription scopeLabel) cards2 else cards2)"
    by (simp add: portfolioCards_def Let_def cards1_def cards2_def)
  with t2 show ?thesis
    by (cases "cards2 = []") (simp_all add: pushCard_tiered tiered_Nil)
qed

lemma tiered_createRecommendationCards:
  "tiered (createRecommendationCards F scopeLabel complaints fallback brandInsight brandModels)"
  by (simp add: createRecommendationCards_def delightFill_tiered tiered_brandCardsBeforeFill
      tiered_portfolioCards split: option.splits)

text \<open>
  Claim C9. In every result of the supplier card generator the priority of a card is fixed
  by its position alone: the priorities of the cards, read in order, are the first entries of
  \<open>Critical, High, Medium\<close>. So the card at index 0 is Critical, the one at index 1 High and
  the one at index 2 Medium, whichever branch produced it.
\<close>

theorem priority_by_position:
  "map priority (createRecommendationCards F scopeLabel complaints fallback brandInsight brandModels) =
     take (length (createRecommendationCards F scopeLabel complaints fallback brandInsight brandModels))
       [Critical, High, Medium]"
  using tiered_createRecommendationCards [of F scopeLabel complaints fallback brandInsight brandModels]
  by (simp add: tiered_def priorities_def)



section \<open>Supplier cards: the brand branch always fills three slots\<close>

lemma delightFill_appends:
  "length cards \<le> MAX_CARDS \<Longrightarrow>
   delightFill t d cards =
     cards @ map (\<lambda>i. \<lparr>title = t, description = d, priority = priorities ! i\<rparr>)
               [length cards..<MAX_CARDS]"
proof (induction t d cards rule: delightFill.induct)
  case (1 t d cards)
  show ?case
  proof (cases "length cards < MAX_CARDS")
    case True
    let ?c = "\<lparr>title = t, description = d, priority = priorities ! length cards\<rparr>"
    have push: "pushCard t d cards = cards @ [?c]"
      using True by (simp add: pushCard_def Let_def MAX_CARDS_def priorities_def)
    have step: "delightFill t d cards = delightFill t d (cards @ [?c])"
      using True push by (subst delightFill.simps) simp
    have "delightFill t d (pushCard t d cards) =
          pushCard t d cards @ map (\<lambda>i. \<lparr>title = t, description = d, priority = priorities ! i\<rparr>)
            [length (pushCard t d cards)..<MAX_CARDS]"
      using True by (intro "1.IH") (simp_all add: push)
    then have "delightFill t d (cards @ [?c]) =
          (cards @ [?c]) @ map (\<lambda>i. \<lparr>title = t, description = d, priority = priorities ! i\<rparr>)
            [Suc (length cards)..<MAX_CARDS]"
      by (simp add: push)
    with step True show ?thesis
      by (simp add: upt_conv_Cons)
  next
    case False
    with "1.prems" have "length cards = MAX_CARDS" by simp
    moreover have "delightFill t d cards = cards"
      using False by (subst delightFill.simps) simp
    ultimately show ?thesis by simp
  qed
qed

lemma example_prefill_length: "length (brandCardsBeforeFill plainFormat ''Acme'' [] example_insight None) = 1"
    by (simp add: brandCardsBeforeFill_def modelCards_def featureCards_def featureSentiments_def
        featureSentimentRow_def example_insight_def nullish_def js_sort_def complaintCards_def
        pulseCard_def pushCard_def MAX_CARDS_def priorities_def Let_def)

lemma example_brand_length: "length (createRecommendationCards plainFormat ''Acme'' [] []
                (Some example_insight) None) = 3"
    using example_prefill_length delightFill_appends
      [of "brandCardsBeforeFill plainFormat ''Acme'' [] example_insight None"
          "delightTitle (summary example_insight)" "delightDescription ''Acme''"]
    by (simp add: createRecommendationCards_def MAX_CARDS_def)

lemma example_portfolio_length: "length (createRecommendationCards plainFormat ''All companies''
        [\<lparr>cv_feature = ''battery'', cv_complaints = 12\<rparr>] [''Improve onboarding''] None None) = 2"
    by (simp add: createRecommendationCards_def portfolioCards_def js_slice_def portfolioCard_def
        fallbackCard_def pushCard_def MAX_CARDS_def priorities_def Let_def)

theorem priority_by_position_witness:
  "map priority
     (createRecommendationCards plainFormat ''All companies''
        [\<lparr>cv_feature = ''battery'', cv_complaints = 12\<rparr>] [''Improve onboarding''] None None) =
   [Critical, High]
   \<and> map priority
     (createRecommendationCards plainFormat ''Acme'' [] [] (Some example_insight) None) =
   [Critical, High, Medium]"
proof -
  have t2: "take 2 [Critical, High, Medium] = [Critical, High]"
    and t3: "take 3 [Critical, High, Medium] = [Critical, High, Medium]"
    by simp_all
  show ?thesis
    using
      priority_by_position [of plainFormat "''All companies''"
        "[\<lparr>cv_feature = ''battery'', cv_complaints = 12\<rparr>]" "[''Improve onboarding'']" None None]
      priority_by_position [of plainFormat "''Acme''" "[]" "[]" "Some example_insight" None]
    unfolding example_portfolio_length example_brand_length t2 t3 by (rule conjI)
qed

text \<open>
  Claim C10. With brand-level detail present the supplier generator returns exactly three
  cards. The first is the sentiment-pulse card of the brand. The cards the pulse, complaint,
  feature-sentiment and model sources produce (between one and three) open the result, and
  every slot after them is the customer-delight filler card.
\<close>

theorem brand_branch_three_cards:
  "length (createRecommendationCards F scopeLabel complaints fallback (Some bi) brandModels) = 3
   \<and> title (createRecommendationCards F scopeLabel complaints fallback (Some bi) brandModels ! 0) =
       summary_brand (summary bi) @ '': Sentiment pulse''
   \<and> 1 \<le> length (brandCardsBeforeFill F scopeLabel complaints bi brandModels)
   \<and> length (brandCardsBeforeFill F scopeLabel complaints bi brandModels) \<le> 3
   \<and> createRecommendationCards F scopeLabel complaints fallback (Some bi) brandModels =
       brandCardsBeforeFill F scopeLabel complaints bi brandModels
       @ map (delightCard (summary bi) scopeLabel)
           [length (brandCardsBeforeFill F scopeLabel complaints bi brandModels)..<3]"
proof -
  let ?pre = "brandCardsBeforeFill F scopeLabel complaints bi brandModels"
  let ?cards = "createRecommendationCards F scopeLabel complaints fallback (Some bi) brandModels"
  obtain d where pulse: "pulseCard F scopeLabel (summary bi) [] =
      [\<lparr>title = summary_brand (summary bi) @ '': Sentiment pulse'', description = d,
        priority = Critical\<rparr>]"
    using pulseCard_Nil by blast
  have "prefix (pulseCard F scopeLabel (summary bi) []) ?pre"
    using extends_brandCardsBeforeFill [of F scopeLabel bi complaints brandModels]
    by (simp add: extends_def)
  then obtain rest where pre: "?pre =
      \<lparr>title = summary_brand (summary bi) @ '': Sentiment pulse'', description = d,
        priority = Critical\<rparr> # rest"
    unfolding pulse by (auto simp: prefix_def)
  have le: "length ?pre \<le> MAX_CARDS"
    using tiered_brandCardsBeforeFill [of F scopeLabel complaints bi brandModels]
    by (simp add: tiered_def)
  have eq: "?cards = ?pre @ map (delightCard (summary bi) scopeLabel) [length ?pre..<3]"
    using delightFill_appends [OF le, of "delightTitle (summary bi)" "delightDescription scopeLabel"]
    by (simp add: createRecommendationCards_def delightCard_def MAX_CARDS_def)
  have len: "length ?cards = 3"
    using le by (subst eq) (simp add: MAX_CARDS_def)
  have first: "title (?cards ! 0) = summary_brand (summary bi) @ '': Sentiment pulse''"
    by (subst eq) (simp add: pre)
  show ?thesis
    using len first le eq by (simp add: pre MAX_CARDS_def)
qed

theorem brand_branch_three_cards_witness:
  "length (brandCardsBeforeFill plainFormat ''Acme'' [] example_insight None) = 1
   \<and> map title (createRecommendationCards plainFormat ''Acme'' [] [] (Some example_insight) None) =
       [''Acme: Sentiment pulse'', ''Acme: Customer delight initiative'',
        ''Acme: Customer delight initiative'']"
proof -
  have ptitle: "map title (brandCardsBeforeFill plainFormat ''Acme'' [] example_insight None) =
             [''Acme: Sentiment pulse'']"
    by (simp add: brandCardsBeforeFill_def modelCards_def featureCards_def featureSentiments_def
        featureSentimentRow_def example_insight_def nullish_def js_sort_def complaintCards_def
        pulseCard_def pushCard_def MAX_CARDS_def priorities_def Let_def)
  have len: "length (brandCardsBeforeFill plainFormat ''Acme'' [] example_insight None) = 1"
    by (rule example_prefill_length)
  have dt: "title (delightCard (summary example_insight) ''Acme'' i) =
            ''Acme: Customer delight initiative''" for i
    by (simp add: delightCard_def delightTitle_def example_insight_def)
  have upt: "[1..<3] = [1, 2]"
    by (simp add: upt_conv_Cons)
  have "createRecommendationCards plainFormat ''Acme'' [] [] (Some example_insight) None =
        brandCardsBeforeFill plainFormat ''Acme'' [] example_insight None
        @ map (delightCard (summary example_insight) ''Acme'') [1..<3]"
    using brand_branch_three_cards [of plainFormat "''Acme''" "[]" "[]" example_insight None]
    unfolding len by (elim conjE)
  then have "map title (createRecommendationCards plainFormat ''Acme'' [] [] (Some example_insight) None) =
    map title (brandCardsBeforeFill plainFormat ''Acme'' [] example_insight None)
    @ map title (map (delightCard (summary example_insight) ''Acme'') [1..<3])"
    by (simp only: map_append)
  then show ?thesis
    unfolding ptitle upt using len by (simp add: dt)
qed



section \<open>The generators never return an empty list\<close>

lemma brand_branch_length:
  "length (createRecommendationCards F scopeLabel complaints fallback (Some bi) brandModels) = 3"
proof -
  have le: "length (brandCardsBeforeFill F scopeLabel complaints bi brandModels) \<le> MAX_CARDS"
    using tiered_brandCardsBeforeFill [of F scopeLabel complaints bi brandModels]
    by (simp add: tiered_def)
  show ?thesis
    using le
      delightFill_appends [OF le, of "delightTitle (summary bi)" "delightDescription scopeLabel"]
    by (simp add: createRecommendationCards_def MAX_CARDS_def)
qed

lemma portfolioCards_generic:
  "portfolioCards F scopeLabel [] [] =
     [\<lparr>title = monitorTitle, description = monitorDescription scopeLabel, priority = Critical\<rparr>]"
  by (simp add: portfolioCards_def pushCard_def Let_def MAX_CARDS_def priorities_def)

lemma portfolioCards_nonempty: "portfolioCards F scopeLabel complaints fallback \<noteq> []"
  by (simp add: portfolioCards_def pushCard_def Let_def MAX_CARDS_def)

lemma supplier_length_bounds:
  "1 \<le> length (createRecommendationCards F scopeLabel complaints fallback brandInsight brandModels)
   \<and> length (createRecommendationCards F scopeLabel complaints fallback brandInsight brandModels) \<le> 3"
proof (cases brandInsight)
  case None
  have "portfolioCards F scopeLabel complaints fallback \<noteq> []"
    by (rule portfolioCards_nonempty)
  then have "1 \<le> length (portfolioCards F scopeLabel complaints fallback)"
    by (cases "portfolioCards F scopeLabel complaints fallback") simp_all
  moreover have "length (portfolioCards F scopeLabel complaints fallback) \<le> 3"
    using tiered_portfolioCards [of F scopeLabel complaints fallback]
    by (simp add: tiered_def MAX_CARDS_def)
  ultimately show ?thesis
    using None by (simp add: createRecommendationCards_def)
next
  case (Some bi)
  then show ?thesis by (simp add: brand_branch_length)
qed

lemma buyer_length_bounds:
  "1 \<le> length (generateBuyerRecommendations F dataset selectedBrand brandSegment)
   \<and> length (generateBuyerRecommendations F dataset selectedBrand brandSegment) \<le> 4"
proof (cases "buyerSourceCards F dataset selectedBrand brandSegment")
  case Nil
  then show ?thesis
    by (simp add: generateBuyerRecommendations_def js_slice_prefix)
next
  case (Cons c cs)
  then show ?thesis
    by (simp add: generateBuyerRecommendations_def js_slice_prefix)
qed

lemma buyer_generic:
  "buyerSourceCards F dataset selectedBrand brandSegment = [] \<Longrightarrow>
   generateBuyerRecommendations F dataset selectedBrand brandSegment = [monitorFeedback]"
  by (simp add: generateBuyerRecommendations_def js_slice_prefix)

text \<open>
  Claim C1. The supplier generator returns between one and three cards and the buyer
  generator between one and four, whatever their arguments. When no source yields a card the
  result is the single generic card: for the supplier generator that is the aggregate view
  with no complaints and no free-text recommendations, for the buyer generator the case where
  the top pick, brand and secondary sources are all empty.
\<close>

theorem generators_never_empty:
  "1 \<le> length (createRecommendationCards F scopeLabel complaints fallback brandInsight brandModels)
   \<and> length (createRecommendationCards F scopeLabel complaints fallback brandInsight brandModels) \<le> 3
   \<and> 1 \<le> length (generateBuyerRecommendations F dataset selectedBrand brandSegment)
   \<and> length (generateBuyerRecommendations F dataset selectedBrand brandSegment) \<le> 4
   \<and> createRecommendationCards F scopeLabel [] [] None brandModels =
       [\<lparr>title = ''Monitor customer signals'', description = monitorDescription scopeLabel,
         priority = Critical\<rparr>]
   \<and> (buyerSourceCards F dataset selectedBrand brandSegment = [] \<longrightarrow>
        generateBuyerRecommendations F dataset selectedBrand brandSegment = [monitorFeedback])"
  using supplier_length_bounds [of F scopeLabel complaints fallback brandInsight brandModels]
    buyer_length_bounds [of F dataset selectedBrand brandSegment]
    buyer_generic [of F dataset selectedBrand brandSegment]
    portfolioCards_generic [of F scopeLabel]
  by (simp add: createRecommendationCards_def monitorTitle_def)

lemma example_empty_dataset:
  "buyerSourceCards plainFormat \<lparr>brand_analysis = Some [], model_analysis = Some []\<rparr> ''all'' None = []"
  by (simp add: buyerSourceCards_def scopedModels_def scopedBrands_def bestModelOf_def
      otherModelOf_def topModelsOf_def findModel_def js_sort_def first_elem_def nullish_def
      topPickCards_def brandCards_def secondaryCards_def Let_def)

theorem generators_never_empty_witness:
  "buyerSourceCards plainFormat \<lparr>brand_analysis = Some [], model_analysis = Some []\<rparr> ''all'' None = []
   \<and> generateBuyerRecommendations plainFormat
        \<lparr>brand_analysis = Some [], model_analysis = Some []\<rparr> ''all'' None = [monitorFeedback]
   \<and> length (createRecommendationCards plainFormat ''Acme'' [] [] None None) = 1"
proof -
  have one: "length [\<lparr>title = ''Monitor customer signals'', description = monitorDescription ''Acme'',
                      priority = Critical\<rparr>] = 1"
    by simp
  show ?thesis
    using example_empty_dataset one
      generators_never_empty [of plainFormat "''Acme''" "[]" "[]" None None
        "\<lparr>brand_analysis = Some [], model_analysis = Some []\<rparr>" "''all''" None]
    by (simp only: simp_thms)
qed



section \<open>Absent ratings in the buyer's best-model selection\<close>

lemma sort_insert_map:
  assumes "\<And>a b. cmp (f a) (f b) = cmp a b"
  shows "sort_insert cmp (f x) (map f ys) = map f (sort_insert cmp x ys)"
  by (induction ys) (simp_all add: assms)

lemma js_sort_map:
  assumes "\<And>a b. cmp (f a) (f b) = cmp a b"
  shows "js_sort cmp (map f xs) = map f (js_sort cmp xs)"
  unfolding js_sort_def
  by (induction xs) (simp_all add: sort_insert_map [of cmp f, OF assms])

lemma first_elem_map: "first_elem (map f xs) = map_option f (first_elem xs)"
  by (cases xs) (simp_all add: first_elem_def)

lemma first_elem_js_sort_None: "first_elem (js_sort cmp xs) = None \<longleftrightarrow> xs = []"
proof -
  have "js_sort cmp xs = [] \<longleftrightarrow> xs = []"
    using length_js_sort [of cmp xs] by (metis length_0_conv)
  then show ?thesis
    by (cases "js_sort cmp xs") (simp_all add: first_elem_def)
qed

lemma buyerScore_zeroRating: "buyerScore (zeroRating m) = buyerScore m"
  by (simp add: buyerScore_def zeroRating_def nullish_def split: option.splits)

lemma bestModel_cmp_zeroRating:
  "bestModel_cmp (apsnd zeroRating a) (apsnd zeroRating b) = bestModel_cmp a b"
  by (simp add: bestModel_cmp_def buyerScore_zeroRating)

lemma withinTolerance_known_price:
  "withinTolerance b tol (withPriceAndRating pool) =
   filter (\<lambda>m. case avg_price_usd m of None \<Rightarrow> False | Some p \<Rightarrow> \<bar>p - b\<bar> \<le> tol)
     (withPriceAndRating pool)"
  unfolding withinTolerance_def withPriceAndRating_def
  by (rule filter_cong) (auto simp: nullish_def)

lemma workingSet_subset:
  "set (workingSet budget eligible) \<subseteq> set eligible"
  by (auto simp: workingSet_def withinTolerance_def Let_def split: option.splits if_splits)

lemma advisor_cmp_known:
  assumes "avg_rating a = Some ra" "avg_rating b = Some rb"
    and "avg_price_usd a = Some pa" "avg_price_usd b = Some pb"
  shows "advisor_cmp budget a b =
     (if 1 / 10 ^ 6 < \<bar>rb - ra\<bar> then (if ra < rb then 1 else - 1)
      else case budget of
             None \<Rightarrow> pa - pb
           | Some bv \<Rightarrow>
               if bv \<noteq> 0 \<and> 1 / 10 ^ 6 < \<bar>\<bar>pa - bv\<bar> - \<bar>pb - bv\<bar>\<bar>
               then \<bar>pa - bv\<bar> - \<bar>pb - bv\<bar> else pa - pb)"
  using assms
  by (simp add: advisor_cmp_def budgetKey_def nullish_def Let_def split: option.splits)

lemma withPriceAndRating_known:
  assumes "m \<in> set (withPriceAndRating pool)"
  shows "\<exists>r p. avg_rating m = Some r \<and> avg_price_usd m = Some p"
  using assms by (auto simp: withPriceAndRating_def)

text \<open>
  Claim C4 fails on the buyer's selection. The entry X has 60 percent positive reviews and no
  rating; it scores exactly what it would score with a measured rating of 0, and so loses
  the top pick to Y (58 percent, rated 4.5, score 62.5), just as an X rated 0 does.
\<close>

theorem absent_rating_scored_zero_counterexample:
  "ma_avg_rating (example_entry ''X'' (Some 60) None) = None
   \<and> buyerScore (example_entry ''X'' (Some 60) None) = 60
   \<and> buyerScore (example_entry ''X'' (Some 60) (Some 0)) = 60
   \<and> bestModelOf [(0, example_entry ''X'' (Some 60) None),
                   (1, example_entry ''Y'' (Some 58) (Some 4.5))] None =
       Some (1, example_entry ''Y'' (Some 58) (Some 4.5))
   \<and> bestModelOf [(0, example_entry ''X'' (Some 60) (Some 0)),
                   (1, example_entry ''Y'' (Some 58) (Some 4.5))] None =
       Some (1, example_entry ''Y'' (Some 58) (Some 4.5))"
  by (simp add: bestModelOf_def js_sort_def bestModel_cmp_def buyerScore_def nullish_def
      first_elem_def example_entry_def)

text \<open>
  Claim C4 as amended. In the buyer's best-model selection an absent rating or an absent
  positive share counts as 0: replacing every absent value by a measured 0 changes neither a
  score nor the entry selected. In the model advisor the substitution of a default is never
  reached. The tolerance filter and the ranking run on candidates that passed the
  price-and-rating filter: there the tolerance filter compares the known price, and the
  comparator returns a value computed from the two known ratings and the two known prices
  alone.
\<close>

theorem absent_rating_counts_as_zero:
  "buyerScore (zeroRating m) = buyerScore m
   \<and> bestModelOf (map (apsnd zeroRating) ms) brandSegment =
       map_option (apsnd zeroRating) (bestModelOf ms brandSegment)
   \<and> withinTolerance b tol (withPriceAndRating pool) =
       filter (\<lambda>m. case avg_price_usd m of None \<Rightarrow> False | Some p \<Rightarrow> \<bar>p - b\<bar> \<le> tol)
         (withPriceAndRating pool)
   \<and> set (workingSet budget (withPriceAndRating pool)) \<subseteq> set (withPriceAndRating pool)
   \<and> (\<forall>x \<in> set (withPriceAndRating pool). \<forall>y \<in> set (withPriceAndRating pool).
        \<exists>rx ry px py.
          avg_rating x = Some rx \<and> avg_rating y = Some ry
          \<and> avg_price_usd x = Some px \<and> avg_price_usd y = Some py
          \<and> advisor_cmp budget x y =
              (if 1 / 10 ^ 6 < \<bar>ry - rx\<bar> then (if rx < ry then 1 else - 1)
               else case budget of
                      None \<Rightarrow> px - py
                    | Some bv \<Rightarrow>
                        if bv \<noteq> 0 \<and> 1 / 10 ^ 6 < \<bar>\<bar>px - bv\<bar> - \<bar>py - bv\<bar>\<bar>
                        then \<bar>px - bv\<bar> - \<bar>py - bv\<bar> else px - py))"
proof (intro conjI ballI)
  show "buyerScore (zeroRating m) = buyerScore m"
    by (rule buyerScore_zeroRating)
  show "withinTolerance b tol (withPriceAndRating pool) =
       filter (\<lambda>m. case avg_price_usd m of None \<Rightarrow> False | Some p \<Rightarrow> \<bar>p - b\<bar> \<le> tol)
         (withPriceAndRating pool)"
    by (rule withinTolerance_known_price)
  show "set (workingSet budget (withPriceAndRating pool)) \<subseteq> set (withPriceAndRating pool)"
    by (rule workingSet_subset)
  have sorted: "js_sort bestModel_cmp (map (apsnd zeroRating) ms) =
                map (apsnd zeroRating) (js_sort bestModel_cmp ms)"
    by (rule js_sort_map) (rule bestModel_cmp_zeroRating)
  show "bestModelOf (map (apsnd zeroRating) ms) brandSegment =
        map_option (apsnd zeroRating) (bestModelOf ms brandSegment)"
  proof (cases "ms = []")
    case True
    then show ?thesis
      by (simp add: bestModelOf_def js_sort_def first_elem_def findModel_def split: list.splits)
  next
    case False
    then obtain best where best: "first_elem (js_sort bestModel_cmp ms) = Some best"
      using first_elem_js_sort_None [of bestModel_cmp ms] by (cases "first_elem (js_sort bestModel_cmp ms)") auto
    then show ?thesis
      by (simp add: bestModelOf_def sorted first_elem_map)
  qed
next
  fix x y
  assume "x \<in> set (withPriceAndRating pool)" and "y \<in> set (withPriceAndRating pool)"
  then obtain rx px ry py where k:
      "avg_rating x = Some rx" "avg_price_usd x = Some px"
      "avg_rating y = Some ry" "avg_price_usd y = Some py"
    using withPriceAndRating_known by blast
  show "\<exists>rx ry px py.
          avg_rating x = Some rx \<and> avg_rating y = Some ry
          \<and> avg_price_usd x = Some px \<and> avg_price_usd y = Some py
          \<and> advisor_cmp budget x y =
              (if 1 / 10 ^ 6 < \<bar>ry - rx\<bar> then (if rx < ry then 1 else - 1)
               else case budget of
                      None \<Rightarrow> px - py
                    | Some bv \<Rightarrow>
                        if bv \<noteq> 0 \<and> 1 / 10 ^ 6 < \<bar>\<bar>px - bv\<bar> - \<bar>py - bv\<bar>\<bar>
                        then \<bar>px - bv\<bar> - \<bar>py - bv\<bar> else px - py)"
    using k advisor_cmp_known [OF k(1) k(3) k(2) k(4), of budget] by blast
qed

theorem absent_rating_counts_as_zero_witness:
  "zeroRating (example_entry ''X'' (Some 60) None) = example_entry ''X'' (Some 60) (Some 0)
   \<and> buyerScore (example_entry ''X'' (Some 60) (Some 0)) = buyerScore (example_entry ''X'' (Some 60) None)
   \<and> bestModelOf [(0, example_entry ''X'' None None)] None =
       Some (0, example_entry ''X'' None None)
   \<and> bestModelOf [(0, example_entry ''X'' (Some 0) (Some 0))] None =
       Some (0, example_entry ''X'' (Some 0) (Some 0))
   \<and> example_phone ''Acme'' ''A1'' (Some 4.5) (Some 500)
       \<in> set (withPriceAndRating (models example_snapshot))
   \<and> example_phone ''Acme'' ''A2'' (Some 4.0) (Some 600)
       \<in> set (withPriceAndRating (models example_snapshot))
   \<and> advisor_cmp (Some 600) (example_phone ''Acme'' ''A1'' (Some 4.5) (Some 500))
         (example_phone ''Acme'' ''A2'' (Some 4.0) (Some 600)) = - 1"
proof -
  have z: "zeroRating (example_entry ''X'' (Some 60) None) = example_entry ''X'' (Some 60) (Some 0)"
    "zeroRating (example_entry ''X'' None None) = example_entry ''X'' (Some 0) (Some 0)"
    by (simp_all add: zeroRating_def example_entry_def nullish_def)
  have bm: "bestModelOf [(0, example_entry ''X'' None None)] None =
           Some (0, example_entry ''X'' None None)"
    by (simp add: bestModelOf_def js_sort_def first_elem_def)
  have mem: "example_phone ''Acme'' ''A1'' (Some 4.5) (Some 500)
               \<in> set (withPriceAndRating (models example_snapshot))"
    "example_phone ''Acme'' ''A2'' (Some 4.0) (Some 600)
               \<in> set (withPriceAndRating (models example_snapshot))"
    by (simp_all add: example_eligible)
  have sel: "avg_rating (example_phone c n r p) = r" "avg_price_usd (example_phone c n r p) = p"
    for c n r p
    by (simp_all add: example_phone_def)
  note inst = absent_rating_counts_as_zero [of "example_entry ''X'' (Some 60) None"
        "[(0, example_entry ''X'' None None)]" None _ _ "models example_snapshot" "Some 600"]
  from inst mem obtain rx ry px py where
      "avg_rating (example_phone ''Acme'' ''A1'' (Some 4.5) (Some 500)) = Some rx"
      "avg_rating (example_phone ''Acme'' ''A2'' (Some 4.0) (Some 600)) = Some ry"
      "avg_price_usd (example_phone ''Acme'' ''A1'' (Some 4.5) (Some 500)) = Some px"
      "avg_price_usd (example_phone ''Acme'' ''A2'' (Some 4.0) (Some 600)) = Some py"
      "advisor_cmp (Some 600) (example_phone ''Acme'' ''A1'' (Some 4.5) (Some 500))
         (example_phone ''Acme'' ''A2'' (Some 4.0) (Some 600)) =
       (if 1 / 10 ^ 6 < \<bar>ry - rx\<bar> then (if rx < ry then 1 else - 1)
        else case Some 600 of
               None \<Rightarrow> px - py
             | Some bv \<Rightarrow>
                 if bv \<noteq> 0 \<and> 1 / 10 ^ 6 < \<bar>\<bar>px - bv\<bar> - \<bar>py - bv\<bar>\<bar>
                 then \<bar>px - bv\<bar> - \<bar>py - bv\<bar> else px - py)"
    by blast
  then have cmp: "advisor_cmp (Some 600) (example_phone ''Acme'' ''A1'' (Some 4.5) (Some 500))
         (example_phone ''Acme'' ''A2'' (Some 4.0) (Some 600)) = - 1"
    by (simp add: sel)
  show ?thesis
    using z bm mem cmp inst by simp
qed

section \<open>A scope that names a brand absent from the snapshot\<close>

lemma shortlist_unknown_brand:
  assumes "budgetBrand \<noteq> ''all''" and "\<forall>m \<in> set (models d). brand m \<noteq> budgetBrand"
  shows "shortlist (Some d) budget budgetBrand = \<lparr>recommendedModels = [], candidatePool = []\<rparr>"
proof -
  have "filter (\<lambda>m. brand m = budgetBrand) (models d) = []"
    using assms(2) by (simp add: filter_empty_conv)
  with assms(1) have "withPriceAndRating (scopedPool d budgetBrand) = []"
    by (simp add: scopedPool_def withPriceAndRating_def)
  then show ?thesis
    by (simp add: shortlist_def Let_def)
qed

lemma scopeEffect_unknown_brand:
  "budgetBrand \<notin> set (brandOptions data) \<Longrightarrow> snd (scopeEffect data (selectedBrand, budgetBrand)) = ''all''"
  by (simp add: scopeEffect_def)

lemma supplierBrandEffect_unknown_brand:
  "selectedBrand \<notin> set (supplierBrandOptions ds) \<Longrightarrow> supplierBrandEffect ds selectedBrand = ''all''"
  by (simp add: supplierBrandEffect_def)

lemma recommendationCards_no_insight:
  assumes "selectedBrand \<noteq> ''all''" and "brandInsightOf ds selectedBrand = Absent"
  shows "recommendationCards F ds selectedBrand =
         Inr (portfolioCards F selectedBrand (js_slice 0 6 (nullish (complaint_volume ds) [])) [])"
  using assms
  by (simp add: recommendationCards_def scopedComplaintVolume_def createRecommendationCards_def
      Let_def)

lemma brandInsightOf_Absent_iff:
  "brandInsightOf ds selectedBrand = Absent \<longleftrightarrow>
     selectedBrand = ''all'' \<or> brand_insights ds = None
     \<or> (\<exists>bis. brand_insights ds = Some bis \<and> map_of bis selectedBrand = None
               \<and> selectedBrand \<notin> set inheritedNames)"
  by (auto simp: brandInsightOf_def js_get_def split: option.splits)

text \<open>
  The read \<^verbatim>\<open>brand_insights[selectedBrand]\<close> does find a value for a brand named after an
  inherited property: in the example dataset, which has no insight for a brand
  \<open>constructor\<close>, the page's call raises.
\<close>

lemma example_inherited_name:
  "recommendationCards plainFormat example_dataset ''constructor'' = Inl TypeError"
  by (simp add: recommendationCards_def brandInsightOf_def js_get_def inheritedNames_def
      example_dataset_def Let_def)

text \<open>
  Claim C5 fails on the shortlist computation. The example snapshot has four eligible
  models, all of brand Acme. With the scope \<open>Zeta\<close>, which the snapshot does not contain,
  the computation returns empty lists, while with no scope it returns the four models.
\<close>

theorem unknown_brand_scope_counterexample:
  "''Zeta'' \<notin> set (brandOptions (Some example_snapshot))
   \<and> ''Zeta'' \<notin> brand ` set (models example_snapshot)
   \<and> candidatePool (shortlist (Some example_snapshot) None ''Zeta'') = []
   \<and> length (candidatePool (shortlist (Some example_snapshot) None ''all'')) = 4"
proof -
  have opts: "brandOptions (Some example_snapshot) = [''Acme'']"
    by (simp add: brandOptions_def example_snapshot_def)
  have brands: "brand ` set (models example_snapshot) = {''Acme''}"
    by (simp add: example_snapshot_def example_phone_def)
  have zeta: "shortlist (Some example_snapshot) None ''Zeta'' =
              \<lparr>recommendedModels = [], candidatePool = []\<rparr>"
    by (rule shortlist_unknown_brand) (simp_all add: example_snapshot_def example_phone_def)
  have all: "length (candidatePool (shortlist (Some example_snapshot) None ''all'')) = 4"
    by (simp add: shortlist_def Let_def length_js_sort workingSet_None example_scoped_all
        example_eligible)
      (simp add: example_snapshot_def)
  show ?thesis
    using opts brands zeta all by simp
qed

text \<open>
  Claim C5 as amended. The fall-back to the aggregate view is the work of the pages'
  scope-reset effects, not of the computations. Given a scope other than \<open>all\<close> that no
  model of the snapshot carries, the shortlist computation returns empty lists. Given a brand
  for which the read of \<^verbatim>\<open>brand_insights\<close> finds nothing (the dataset has no insights, or
  the brand is neither one of their keys nor the name of an inherited property), the supplier
  page's call returns cards and does not raise: the portfolio cards for the overall
  complaints, labelled with that brand and without the free-text recommendations. The effect
  of each page replaces a brand that is not among the snapshot's brand options by \<open>all\<close>, and
  the output computed from the scope it leaves is the no-scope output.
\<close>

theorem unknown_brand_scope_reset:
  "(scope \<noteq> ''all'' \<and> (\<forall>m \<in> set (models d). brand m \<noteq> scope) \<longrightarrow>
      shortlist (Some d) budget scope = \<lparr>recommendedModels = [], candidatePool = []\<rparr>)
   \<and> (scope \<notin> set (brandOptions data) \<longrightarrow>
        shortlist data budget (snd (scopeEffect data (selectedBrand, scope))) =
        shortlist data budget ''all'')
   \<and> (scope \<noteq> ''all''
        \<and> (brand_insights ds = None
             \<or> (\<exists>bis. brand_insights ds = Some bis \<and> map_of bis scope = None
                       \<and> scope \<notin> set inheritedNames)) \<longrightarrow>
        recommendationCards F ds scope =
        Inr (portfolioCards F scope (js_slice 0 6 (nullish (complaint_volume ds) [])) []))
   \<and> (scope \<notin> set (supplierBrandOptions ds) \<longrightarrow>
        recommendationCards F ds (supplierBrandEffect ds scope) =
        recommendationCards F ds ''all'')"
proof (intro conjI impI)
  assume "scope \<noteq> ''all'' \<and> (\<forall>m \<in> set (models d). brand m \<noteq> scope)"
  then show "shortlist (Some d) budget scope = \<lparr>recommendedModels = [], candidatePool = []\<rparr>"
    by (simp add: shortlist_unknown_brand)
next
  assume "scope \<notin> set (brandOptions data)"
  then show "shortlist data budget (snd (scopeEffect data (selectedBrand, scope))) =
             shortlist data budget ''all''"
    by (simp add: scopeEffect_unknown_brand)
next
  assume h: "scope \<noteq> ''all''
        \<and> (brand_insights ds = None
             \<or> (\<exists>bis. brand_insights ds = Some bis \<and> map_of bis scope = None
                       \<and> scope \<notin> set inheritedNames))"
  then have "brandInsightOf ds scope = Absent"
    unfolding brandInsightOf_Absent_iff by blast
  with h show "recommendationCards F ds scope =
        Inr (portfolioCards F scope (js_slice 0 6 (nullish (complaint_volume ds) [])) [])"
    by (simp add: recommendationCards_no_insight)
next
  assume "scope \<notin> set (supplierBrandOptions ds)"
  then show "recommendationCards F ds (supplierBrandEffect ds scope) =
             recommendationCards F ds ''all''"
    by (simp add: supplierBrandEffect_unknown_brand)
qed

theorem unknown_brand_scope_reset_witness:
  "shortlist (Some example_snapshot) None ''Zeta'' = \<lparr>recommendedModels = [], candidatePool = []\<rparr>
   \<and> shortlist (Some example_snapshot) None
        (snd (scopeEffect (Some example_snapshot) (''all'', ''Zeta''))) =
      shortlist (Some example_snapshot) None ''all''
   \<and> recommendationCards plainFormat example_dataset ''Zeta'' =
      Inr (portfolioCards plainFormat ''Zeta'' [] [])
   \<and> recommendationCards plainFormat example_dataset (supplierBrandEffect example_dataset ''Zeta'') =
      recommendationCards plainFormat example_dataset ''all''"
proof -
  have h1: "''Zeta'' \<noteq> ''all'' \<and> (\<forall>m \<in> set (models example_snapshot). brand m \<noteq> ''Zeta'')"
    by (simp add: example_snapshot_def example_phone_def)
  have h2: "''Zeta'' \<notin> set (brandOptions (Some example_snapshot))"
    by (simp add: brandOptions_def example_snapshot_def)
  have h3: "''Zeta'' \<noteq> ''all''
        \<and> (brand_insights example_dataset = None
             \<or> (\<exists>bis. brand_insights example_dataset = Some bis \<and> map_of bis ''Zeta'' = None
                       \<and> ''Zeta'' \<notin> set inheritedNames))"
    by (simp add: example_dataset_def inheritedNames_def)
  have h4: "''Zeta'' \<notin> set (supplierBrandOptions example_dataset)"
    by (simp add: supplierBrandOptions_def example_dataset_def)
  have cv: "js_slice 0 6 (nullish (complaint_volume example_dataset) []) = []"
    by (simp add: js_slice_def nullish_def example_dataset_def)
  show ?thesis
    using h1 h2 h3 h4
      unknown_brand_scope_reset [of "''Zeta''" example_snapshot None "Some example_snapshot"
        "''all''" example_dataset plainFormat]
    unfolding cv by blast
qed


end
